theory Spec2Isabelle
  imports Main
begin

section \<open>Python values used by backtrace.py\<close>

text \<open>
  An exception (or warning) object as the tracer reads it: the name of its class
  (\<^verbatim>\<open>type(e).__name__\<close>) and its string conversion (\<^verbatim>\<open>str(e)\<close>).
\<close>

record exn =
  exc_name :: string
  exc_msg :: string

text \<open>
  A code object. \<open>co_body\<close> stands for everything but the name and the file that
  Python compares when two code objects are tested with \<^verbatim>\<open>==\<close>
  (argument counts, first line, bytecode, constants); the file name takes no part
  in that comparison.
\<close>

record code =
  co_name :: string
  co_filename :: string
  co_body :: nat

definition code_eq :: "code \<Rightarrow> code \<Rightarrow> bool" where
  "code_eq a b = (co_name a = co_name b \<and> co_body a = co_body b)"

text \<open>
  A frame. \<open>f_id\<close> is the identity of the frame object (frames are compared by
  identity). A local binding is kept as far as \<^verbatim>\<open>_get_function_name\<close> looks at it:
  \<open>Some c\<close> when the value is callable and has a \<^verbatim>\<open>__code__\<close> attribute \<open>c\<close>,
  \<open>None\<close> otherwise.
\<close>

datatype frame =
  Frame (f_id: nat) (f_code: code) (f_lineno: int)
        (f_locals: "(string \<times> code option) list") (f_back: "frame option")

text \<open>
  The renderer's panel: the rendered body is a markup string or a tree. A tree is
  kept as a store of nodes (label, children); a node handle is an index into the
  store, and the root is node 0.
\<close>

type_synonym tree = "(string \<times> nat list) list"

datatype renderable = Markup string | TreeBody tree

record panel =
  renderable :: renderable
  title :: string
  subtitle :: string
  border_style :: string
  padding :: "nat \<times> nat"

text \<open>
  The module's globals and the library functions it calls: the working directory
  at import, the absolute path of backtrace.py, \<^verbatim>\<open>sys.prefix\<close>,
  \<^verbatim>\<open>os.path.abspath\<close>, \<^verbatim>\<open>os.path.relpath(_, _cwd)\<close> (\<open>None\<close> when it raises
  ValueError) and \<^verbatim>\<open>str\<close> on a panel.
\<close>

record env =
  cwd :: string
  backtrace_file :: string
  sys_prefix :: string
  abspath :: "string \<Rightarrow> string"
  relpath :: "string \<Rightarrow> string option"
  str_panel :: "panel \<Rightarrow> string"

section \<open>Strings\<close>

definition nl :: string where
  "nl = [CHR 0x0A]"

text \<open>The glyphs of the reports, as their UTF-8 bytes.\<close>

definition glyph_call :: string where
  "glyph_call = [CHR 0xE2, CHR 0x86, CHR 0xB3]"

definition glyph_return :: string where
  "glyph_return = [CHR 0xE2, CHR 0x86, CHR 0xB0]"

definition glyph_fail :: string where
  "glyph_fail = [CHR 0xE2, CHR 0x9C, CHR 0x97]"

definition glyph_warn :: string where
  "glyph_warn = [CHR 0xE2, CHR 0x9A, CHR 0xA0]"

fun str_nat :: "nat \<Rightarrow> string" where
  "str_nat n =
     (if n < 10 then [''0123456789'' ! n]
      else str_nat (n div 10) @ [''0123456789'' ! (n mod 10)])"

declare str_nat.simps [simp del]

definition str_int :: "int \<Rightarrow> string" where
  "str_int i = (if i < 0 then ''-'' @ str_nat (nat (- i)) else str_nat (nat i))"

text \<open>\<^verbatim>\<open>sep.join(xs)\<close>.\<close>

fun join :: "string \<Rightarrow> string list \<Rightarrow> string" where
  "join sep [] = []"
| "join sep [x] = x"
| "join sep (x # y # ys) = x @ sep @ join sep (y # ys)"

text \<open>\<^verbatim>\<open>s * n\<close>: the empty string for \<open>n \<le> 0\<close>.\<close>

definition str_times :: "string \<Rightarrow> int \<Rightarrow> string" where
  "str_times s n = concat (replicate (nat n) s)"

text \<open>\<^verbatim>\<open>s in t\<close> on strings: \<open>s\<close> occurs in \<open>t\<close> as a contiguous substring.\<close>

fun starts_with :: "string \<Rightarrow> string \<Rightarrow> bool" where
  "starts_with [] t = True"
| "starts_with (a # s) [] = False"
| "starts_with (a # s) (b # t) = (a = b \<and> starts_with s t)"

fun str_in :: "string \<Rightarrow> string \<Rightarrow> bool" where
  "str_in s [] = (s = [])"
| "str_in s (c # t) = (starts_with s (c # t) \<or> str_in s t)"

section \<open>Path and frame utilities\<close>

definition get_relative_path :: "env \<Rightarrow> string \<Rightarrow> string" where
  "get_relative_path E filepath =
     (case relpath E filepath of Some r \<Rightarrow> r | None \<Rightarrow> filepath)"

fun find_binding :: "code \<Rightarrow> (string \<times> code option) list \<Rightarrow> string option" where
  "find_binding c [] = None"
| "find_binding c ((name, v) # rest) =
     (case v of
        Some c' \<Rightarrow> if code_eq c' c then Some name else find_binding c rest
      | None \<Rightarrow> find_binding c rest)"

definition get_function_name :: "frame \<Rightarrow> string" where
  "get_function_name fr =
     (let c = f_code fr; func_name = co_name c in
      if func_name = ''<module>'' then
        (case find_binding c (f_locals fr) of Some name \<Rightarrow> name | None \<Rightarrow> func_name)
      else func_name)"

definition should_trace :: "env \<Rightarrow> string \<Rightarrow> bool" where
  "should_trace E filepath =
     (let ap = abspath E filepath in
      if ap = backtrace_file E then False
      else if str_in ''site-packages'' ap then False
      else if str_in ''dist-packages'' ap then False
      else if str_in (sys_prefix E) ap \<and> \<not> str_in (cwd E) ap then False
      else True)"

section \<open>The trace context\<close>

text \<open>
  A recorded event: the tuples \<^verbatim>\<open>('call', path, line, name, None)\<close>,
  \<^verbatim>\<open>('return', path, line, name, None)\<close> and
  \<^verbatim>\<open>('exception', path, line, name, (exc_type, exc_value))\<close>.
\<close>

datatype event =
  Call string int string
| Return string int string
| Exception string int string exn

text \<open>What the runtime hands to the trace function besides the frame.\<close>

datatype raw_event = RCall | RLine | RReturn | RException exn | ROpcode

record trace_context =
  target_code :: code
  log_file :: "string option"
  return_trace :: bool
  use_rich :: bool
  events :: "event list"
  exception_info :: "(exn \<times> string \<times> int \<times> string) option"
  started :: bool
  root_frame :: "nat option"

definition new_context :: "code \<Rightarrow> string option \<Rightarrow> bool \<Rightarrow> bool \<Rightarrow> trace_context" where
  "new_context tc lf rt ur =
     \<lparr>target_code = tc, log_file = lf, return_trace = rt, use_rich = ur,
      events = [], exception_info = None, started = False, root_frame = None\<rparr>"

text \<open>
  \<^verbatim>\<open>trace_func\<close>: the context after the event (the function always returns
  itself as the continuation, which is not part of the state).
\<close>

definition trace_func :: "env \<Rightarrow> trace_context \<Rightarrow> frame \<Rightarrow> raw_event \<Rightarrow> trace_context" where
  "trace_func E ctx fr ev =
     (let c = f_code fr; filepath = co_filename c in
      if \<not> should_trace E filepath then ctx
      else
        let ctx1 = (if \<not> started ctx \<and> code_eq c (target_code ctx)
                    then ctx\<lparr>started := True, root_frame := Some (f_id fr)\<rparr>
                    else ctx)
        in
        if \<not> started ctx1 then ctx1
        else
          let lineno = f_lineno fr;
              func_name = get_function_name fr;
              rel_path = get_relative_path E filepath
          in
          (case ev of
             RCall \<Rightarrow>
               (case f_back fr of
                  Some caller \<Rightarrow>
                    if root_frame ctx1 \<noteq> Some (f_id fr) then
                      ctx1\<lparr>events := events ctx1 @
                        [Call (get_relative_path E (co_filename (f_code caller)))
                              (f_lineno caller) func_name]\<rparr>
                    else ctx1\<lparr>events := events ctx1 @ [Call rel_path lineno func_name]\<rparr>
                | None \<Rightarrow> ctx1\<lparr>events := events ctx1 @ [Call rel_path lineno func_name]\<rparr>)
           | RReturn \<Rightarrow> ctx1\<lparr>events := events ctx1 @ [Return rel_path lineno func_name]\<rparr>
           | RException x \<Rightarrow>
               ctx1\<lparr>exception_info := Some (x, rel_path, lineno, func_name),
                     events := events ctx1 @ [Exception rel_path lineno func_name x]\<rparr>
           | RLine \<Rightarrow> ctx1
           | ROpcode \<Rightarrow> ctx1))"

section \<open>Formatting\<close>

fun ev_path :: "event \<Rightarrow> string" where
  "ev_path (Call p l f) = p"
| "ev_path (Return p l f) = p"
| "ev_path (Exception p l f x) = p"

fun ev_line :: "event \<Rightarrow> int" where
  "ev_line (Call p l f) = l"
| "ev_line (Return p l f) = l"
| "ev_line (Exception p l f x) = l"

fun ev_func :: "event \<Rightarrow> string" where
  "ev_func (Call p l f) = f"
| "ev_func (Return p l f) = f"
| "ev_func (Exception p l f x) = f"

subsection \<open>The tree of the rich mode\<close>

definition index_error :: exn where
  "index_error = \<lparr>exc_name = ''IndexError'', exc_msg = ''list index out of range''\<rparr>"

text \<open>
  \<^verbatim>\<open>node.add(label)\<close>: a new node is allocated at the end of the store and appended
  to the children of \<open>parent\<close>; the new node's handle is returned.
\<close>

definition tree_add :: "nat \<Rightarrow> string \<Rightarrow> tree \<Rightarrow> tree \<times> nat" where
  "tree_add parent lbl t =
     (t[parent := (fst (t ! parent), snd (t ! parent) @ [length t])] @ [(lbl, [])], length t)"

definition call_label :: "string \<Rightarrow> int \<Rightarrow> string \<Rightarrow> string" where
  "call_label p l f =
     ''[cyan]'' @ glyph_call @ ''[/cyan] '' @ p @ '':'' @ str_int l @
     '' [yellow]('' @ f @ '')[/yellow]''"

definition return_label :: "string \<Rightarrow> string \<Rightarrow> string" where
  "return_label p f =
     ''[green]'' @ glyph_return @ ''[/green] '' @ p @ '' [yellow]('' @ f @ '')[/yellow]''"

definition exception_label :: "bool \<Rightarrow> string \<Rightarrow> int \<Rightarrow> string \<Rightarrow> exn \<Rightarrow> string" where
  "exception_label is_failure p l f x =
     (if is_failure then
        ''[red]'' @ glyph_fail @ ''[/red] '' @ p @ '':'' @ str_int l @
        '' [yellow]('' @ f @ '')[/yellow] [red]<-- EXCEPTION: '' @
        exc_name x @ '': '' @ exc_msg x @ ''[/red]''
      else
        ''[yellow]'' @ glyph_warn @ ''[/yellow] '' @ p @ '':'' @ str_int l @
        '' [yellow]('' @ f @ '')[/yellow] [dim]<-- handled exception: '' @
        exc_name x @ '': '' @ exc_msg x @ ''[/dim]'')"

text \<open>
  One turn of the loop of \<^verbatim>\<open>_build_tree\<close> on the stack of node handles (the top is
  the last element) and the store. \<^verbatim>\<open>stack[-1]\<close> raises IndexError on an empty stack.
\<close>

fun tree_step :: "bool \<Rightarrow> event \<Rightarrow> nat list \<times> tree \<Rightarrow> exn + nat list \<times> tree" where
  "tree_step is_failure (Call p l f) (stack, t) =
     (if stack = [] then Inl index_error
      else let (t', node) = tree_add (last stack) (call_label p l f) t
           in Inr (stack @ [node], t'))"
| "tree_step is_failure (Return p l f) (stack, t) =
     (if length stack > 1 then
        let (t', node) = tree_add (last stack) (return_label p f) t
        in Inr (butlast stack, t')
      else Inr (stack, t))"
| "tree_step is_failure (Exception p l f x) (stack, t) =
     (if stack = [] then Inl index_error
      else let (t', node) = tree_add (last stack) (exception_label is_failure p l f x) t
           in Inr (stack, t'))"

fun tree_loop :: "bool \<Rightarrow> event list \<Rightarrow> nat list \<times> tree \<Rightarrow> exn + nat list \<times> tree" where
  "tree_loop is_failure [] s = Inr s"
| "tree_loop is_failure (e # es) s =
     (case tree_step is_failure e s of
        Inl x \<Rightarrow> Inl x
      | Inr s' \<Rightarrow> tree_loop is_failure es s')"

definition build_tree :: "trace_context \<Rightarrow> bool \<Rightarrow> exn + tree" where
  "build_tree ctx is_failure =
     (case events ctx of
        [] \<Rightarrow> Inr [(''No events captured'', [])]
      | first_event # rest \<Rightarrow>
          (case tree_loop is_failure rest
                  ([0], [(call_label (ev_path first_event) (ev_line first_event)
                            (ev_func first_event), [])]) of
             Inl x \<Rightarrow> Inl x
           | Inr (stack, t) \<Rightarrow> Inr t))"

subsection \<open>The plain mode\<close>

fun plain_step :: "bool \<Rightarrow> event \<Rightarrow> string list \<times> int \<Rightarrow> string list \<times> int" where
  "plain_step is_failure (Call p l f) (lines, depth) =
     (lines @ [str_times ''    '' depth @ glyph_call @ '' '' @ p @ '':'' @ str_int l @
               '' ('' @ f @ '')''],
      depth + 1)"
| "plain_step is_failure (Return p l f) (lines, depth) =
     (lines @ [str_times ''    '' (depth - 1) @ glyph_return @ '' '' @ p @
               '' ('' @ f @ '')''],
      depth - 1)"
| "plain_step is_failure (Exception p l f x) (lines, depth) =
     (lines @
        [if is_failure then
           str_times ''    '' depth @ glyph_fail @ '' '' @ p @ '':'' @ str_int l @
           '' ('' @ f @ '') <-- EXCEPTION HERE: '' @ exc_name x @ '': '' @ exc_msg x
         else
           str_times ''    '' depth @ glyph_warn @ '' '' @ p @ '':'' @ str_int l @
           '' ('' @ f @ '') (handled exception: '' @ exc_name x @ '')''],
      depth)"

fun plain_loop :: "bool \<Rightarrow> event list \<Rightarrow> string list \<times> int \<Rightarrow> string list \<times> int" where
  "plain_loop is_failure [] s = s"
| "plain_loop is_failure (e # es) s = plain_loop is_failure es (plain_step is_failure e s)"

text \<open>The header of the plain report (computed after the loop in \<^verbatim>\<open>_format_plain\<close>).\<close>

definition plain_header :: "trace_context \<Rightarrow> bool \<Rightarrow> string" where
  "plain_header ctx is_failure =
     (case (if is_failure then exception_info ctx else None) of
        Some (x, rel_path, lineno, func_name) \<Rightarrow>
          ''EXCEPTION: '' @ exc_name x @ '': '' @ exc_msg x @ '' at '' @ rel_path @ '':'' @
          str_int lineno
      | None \<Rightarrow>
          (case events ctx of
             first_event # rest \<Rightarrow>
               ''EXECUTION TRACE (no exception) at '' @ ev_path first_event @ '':'' @
               str_int (ev_line first_event)
           | [] \<Rightarrow> ''EXECUTION TRACE (no exception)''))"

definition format_plain :: "trace_context \<Rightarrow> string \<Rightarrow> bool \<Rightarrow> string" where
  "format_plain ctx status is_failure =
     (let (lines, depth) = plain_loop is_failure (events ctx) ([], 0);
          header = plain_header ctx is_failure
      in join nl ([header, ''=== BACKTRACE ===''] @ lines @
                  [''================='', ''STATUS: '' @ status]))"

subsection \<open>Choosing the mode\<close>

datatype report = Plain string | Rich panel

definition format_trace :: "trace_context \<Rightarrow> string \<Rightarrow> bool \<Rightarrow> exn + report" where
  "format_trace ctx status is_failure =
     (if \<not> use_rich ctx then Inr (Plain (format_plain ctx status is_failure))
      else
        let (ttl, sub, status_color) =
              (case (if is_failure then exception_info ctx else None) of
                 Some (x, rel_path, lineno, func_name) \<Rightarrow>
                   (''[red bold]EXCEPTION: '' @ exc_name x @ ''[/red bold]'',
                    exc_msg x @ '' at '' @ rel_path @ '':'' @ str_int lineno,
                    ''red'')
               | None \<Rightarrow>
                   (''[green bold]EXECUTION TRACE[/green bold]'',
                    (if exception_info ctx = None then ''no exception''
                     else ''exception handled''),
                    ''green''))
        in
        (case build_tree ctx is_failure of
           Inl x \<Rightarrow> Inl x
         | Inr t \<Rightarrow>
             Inr (Rich \<lparr>renderable = TreeBody t, title = ttl, subtitle = sub,
                        border_style = status_color, padding = (1, 2)\<rparr>)))"

section \<open>The output sink\<close>

text \<open>
  The part of the process and of the system the module touches: the process-wide
  trace hook (\<^verbatim>\<open>sys.gettrace\<close>, \<^verbatim>\<open>sys.settrace\<close>), the files it appends to, what it
  prints, and which paths \<^verbatim>\<open>open(path, 'a')\<close> refuses (with the exception raised).
\<close>

datatype hook = Intake | Foreign nat

datatype console_item = Printed string | RichPrinted panel

record world =
  trace_hook :: "hook option"
  files :: "string \<Rightarrow> string option"
  console :: "console_item list"
  open_error :: "string \<Rightarrow> exn option"

definition report_str :: "env \<Rightarrow> report \<Rightarrow> string" where
  "report_str E r = (case r of Plain s \<Rightarrow> s | Rich p \<Rightarrow> str_panel E p)"

text \<open>\<^verbatim>\<open>with open(path, 'a') as f: f.write(content)\<close>.\<close>

definition append_file :: "string \<Rightarrow> string \<Rightarrow> world \<Rightarrow> exn + world" where
  "append_file path content w =
     (case open_error w path of
        Some e \<Rightarrow> Inl e
      | None \<Rightarrow>
          Inr (w\<lparr>files := (files w)(path \<mapsto>
                 (case files w path of None \<Rightarrow> [] | Some old \<Rightarrow> old) @ content)\<rparr>))"

text \<open>The truth value of \<^verbatim>\<open>log_file\<close>: neither \<^verbatim>\<open>None\<close> nor the empty string.\<close>

definition configured :: "string option \<Rightarrow> string option" where
  "configured lf = (case lf of None \<Rightarrow> None | Some p \<Rightarrow> if p = [] then None else Some p)"

definition output_trace ::
  "env \<Rightarrow> trace_context \<Rightarrow> report \<Rightarrow> world \<Rightarrow> (exn + string option) \<times> world" where
  "output_trace E ctx trace_output w =
     (if return_trace ctx then (Inr (Some (report_str E trace_output)), w)
      else
        (case configured (log_file ctx) of
           Some path \<Rightarrow>
             (case append_file path (report_str E trace_output @ nl) w of
                Inl e \<Rightarrow> (Inl e, w)
              | Inr w' \<Rightarrow> (Inr None, w'))
         | None \<Rightarrow>
             (case trace_output of
                Rich p \<Rightarrow>
                  if use_rich ctx
                  then (Inr None, w\<lparr>console := console w @ [RichPrinted p]\<rparr>)
                  else (Inr None, w\<lparr>console := console w @ [Printed (str_panel E p)]\<rparr>)
              | Plain s \<Rightarrow> (Inr None, w\<lparr>console := console w @ [Printed s]\<rparr>))))"

section \<open>Entry points\<close>

record config =
  cfg_log_file :: "string option"
  cfg_return_trace :: bool
  cfg_trace_on_success :: bool
  cfg_use_rich :: bool

text \<open>
  A call of the traced function, started with the intake installed: the events the
  runtime delivers to the intake while it runs, its result (an exception or a
  value), and the world it leaves (it may print, write and even replace the hook).
\<close>

type_synonym 'v behaviour = "world \<Rightarrow> (frame \<times> raw_event) list \<times> (exn + 'v) \<times> world"

definition intake_all :: "env \<Rightarrow> trace_context \<Rightarrow> (frame \<times> raw_event) list \<Rightarrow> trace_context" where
  "intake_all E ctx raws = foldl (\<lambda>c (fr, ev). trace_func E c fr ev) ctx raws"

text \<open>
  The \<^verbatim>\<open>try\<close> body after the call returned \<open>result\<close>: the PASS report when
  \<^verbatim>\<open>trace_on_success\<close>, then \<^verbatim>\<open>return result\<close>.
\<close>

definition success_branch ::
  "env \<Rightarrow> bool \<Rightarrow> trace_context \<Rightarrow> 'v \<Rightarrow> world \<Rightarrow> (exn + 'v) \<times> world" where
  "success_branch E trace_on_success ctx result w =
     (if trace_on_success then
        (case format_trace ctx ''PASS'' False of
           Inl e \<Rightarrow> (Inl e, w)
         | Inr trace_output \<Rightarrow>
             (case output_trace E ctx trace_output w of
                (Inl e, w') \<Rightarrow> (Inl e, w')
              | (Inr r, w') \<Rightarrow> (Inr result, w')))
      else (Inr result, w))"

text \<open>
  The \<^verbatim>\<open>finally\<close> block. \<open>exc\<close> is what \<^verbatim>\<open>sys.exc_info()\<close> shows there; the block
  yields the exception it raises itself, if any.
\<close>

definition finally_block ::
  "env \<Rightarrow> trace_context \<Rightarrow> hook option \<Rightarrow> exn option \<Rightarrow> world \<Rightarrow> exn option \<times> world" where
  "finally_block E ctx old_trace exc w =
     (let w1 = w\<lparr>trace_hook := old_trace\<rparr> in
      case exc of
        None \<Rightarrow> (None, w1)
      | Some x \<Rightarrow>
          (case format_trace ctx ''FAIL'' True of
             Inl e \<Rightarrow> (Some e, w1)
           | Inr trace_output \<Rightarrow>
               (case output_trace E ctx trace_output w1 of
                  (Inl e, w2) \<Rightarrow> (Some e, w2)
                | (Inr r, w2) \<Rightarrow> (None, w2))))"

text \<open>
  \<^verbatim>\<open>trace_calls(...)(func)(*args, **kwargs)\<close>. \<open>handling\<close> is the exception being
  handled around the call, if the call is made inside an \<^verbatim>\<open>except\<close> block
  (\<^verbatim>\<open>sys.exc_info()\<close> shows it when nothing is raised inside the wrapper).
\<close>

definition wrapper ::
  "env \<Rightarrow> config \<Rightarrow> code \<Rightarrow> 'v behaviour \<Rightarrow> exn option \<Rightarrow> world \<Rightarrow> (exn + 'v) \<times> world" where
  "wrapper E cfg func_code func handling w =
     (let ctx = new_context func_code (cfg_log_file cfg) (cfg_return_trace cfg)
                  (cfg_use_rich cfg);
          old_trace = trace_hook w;
          (raws, res, w1) = func (w\<lparr>trace_hook := Some Intake\<rparr>);
          ctx' = intake_all E ctx raws;
          (tried, w2) = (case res of
                           Inl e \<Rightarrow> (Inl e, w1)
                         | Inr result \<Rightarrow>
                             success_branch E (cfg_trace_on_success cfg) ctx' result w1);
          exc = (case tried of Inl e \<Rightarrow> Some e | Inr v \<Rightarrow> handling);
          (raised, w3) = finally_block E ctx' old_trace exc w2
      in (case raised of Some e \<Rightarrow> (Inl e, w3) | None \<Rightarrow> (tried, w3)))"

text \<open>
  \<^verbatim>\<open>log_warning\<close>; \<open>caller\<close> is \<^verbatim>\<open>sys._getframe(1)\<close>.
\<close>

definition log_warning ::
  "env \<Rightarrow> exn \<Rightarrow> frame \<Rightarrow> string option \<Rightarrow> bool \<Rightarrow> bool \<Rightarrow> world
     \<Rightarrow> (exn + string option) \<times> world" where
  "log_warning E warning caller lf rt ur w =
     (let warning_type = exc_name warning;
          message = exc_msg warning;
          lineno = f_lineno caller;
          rel_path = get_relative_path E (co_filename (f_code caller))
      in
      if ur then
        let pnl = \<lparr>renderable = Markup (''[yellow]'' @ glyph_call @ ''[/yellow] '' @ rel_path @
                                   '':'' @ str_int lineno @ '' (warning_site)''),
                   title = ''[yellow bold]WARNING: '' @ warning_type @ ''[/yellow bold]'',
                   subtitle = message, border_style = ''yellow'', padding = (1, 2)\<rparr>
        in
        if rt then (Inr (Some (str_panel E pnl)), w)
        else
          (case configured lf of
             Some path \<Rightarrow>
               (case append_file path (str_panel E pnl @ nl) w of
                  Inl e \<Rightarrow> (Inl e, w)
                | Inr w' \<Rightarrow> (Inr None, w'))
           | None \<Rightarrow> (Inr None, w\<lparr>console := console w @ [RichPrinted pnl]\<rparr>))
      else
        let header = ''WARNING: '' @ warning_type @ '': '' @ message @ '' at '' @ rel_path @
                     '':'' @ str_int lineno;
            trace_str = join nl [header, ''=== BACKTRACE ==='',
                          glyph_call @ '' '' @ rel_path @ '':'' @ str_int lineno @
                          '' (warning_site)'',
                          ''================='', ''STATUS: WARNING'']
        in
        if rt then (Inr (Some trace_str), w)
        else
          (case configured lf of
             Some path \<Rightarrow>
               (case append_file path (trace_str @ nl) w of
                  Inl e \<Rightarrow> (Inl e, w)
                | Inr w' \<Rightarrow> (Inr None, w'))
           | None \<Rightarrow> (Inr None, w\<lparr>console := console w @ [Printed trace_str]\<rparr>)))"

section \<open>Notions of the specification\<close>

text \<open>
  An event log in which calls and returns pair up as in a call tree: every Call is
  closed by a later Return at the same nesting level, and no Return stands alone.
\<close>

inductive matched :: "event list \<Rightarrow> bool" where
  matched_Nil: "matched []"
| matched_Exception: "matched es \<Longrightarrow> matched (Exception p l f x # es)"
| matched_Call:
    "matched es \<Longrightarrow> matched es' \<Longrightarrow> matched (Call p l f # es @ Return p' l' f' # es')"

text \<open>
  \<open>isTraceable\<close> as the specification words it: path segments that name a
  package-installation directory, and paths under a directory.
\<close>

fun segments :: "string \<Rightarrow> string list" where
  "segments [] = [[]]"
| "segments (c # cs) =
     (if c = CHR ''/'' then [] # segments cs
      else (case segments cs of s # ss \<Rightarrow> (c # s) # ss | [] \<Rightarrow> [[c]]))"

definition under_dir :: "string \<Rightarrow> string \<Rightarrow> bool" where
  "under_dir d p = (p = d \<or> starts_with (d @ ''/'') p)"

definition isTraceable_spec :: "env \<Rightarrow> string \<Rightarrow> bool" where
  "isTraceable_spec E path =
     (let ap = abspath E path in
      \<not> (ap = backtrace_file E
         \<or> ''site-packages'' \<in> set (segments ap)
         \<or> ''dist-packages'' \<in> set (segments ap)
         \<or> (under_dir (sys_prefix E) ap \<and> \<not> under_dir (cwd E) ap)))"

text \<open>
  The lines of a text, as \<^verbatim>\<open>s.split("\n")\<close> gives them, and the texts that are one
  line.
\<close>

fun split_lines :: "string \<Rightarrow> string list" where
  "split_lines [] = [[]]"
| "split_lines (c # cs) =
     (if c = CHR 0x0A then [] # split_lines cs
      else (case split_lines cs of l # ls \<Rightarrow> (c # l) # ls | [] \<Rightarrow> [[c]]))"

definition single_line :: "string \<Rightarrow> bool" where
  "single_line s = (CHR 0x0A \<notin> set s)"

text \<open>
  The texts of an event that the plain formatter prints are one line each: path
  and function name, and for an Exception event the name of the exception's class
  and, in a failure report (which prints it), its message.
\<close>

fun ev_single_line :: "bool \<Rightarrow> event \<Rightarrow> bool" where
  "ev_single_line is_failure (Call p l f) = (single_line p \<and> single_line f)"
| "ev_single_line is_failure (Return p l f) = (single_line p \<and> single_line f)"
| "ev_single_line is_failure (Exception p l f x) =
     (single_line p \<and> single_line f \<and> single_line (exc_name x) \<and>
      (if is_failure then single_line (exc_msg x) else True))"

definition info_single_line :: "(exn \<times> string \<times> int \<times> string) option \<Rightarrow> bool" where
  "info_single_line info =
     (case info of
        None \<Rightarrow> True
      | Some (x, rel_path, lineno, func_name) \<Rightarrow>
          single_line (exc_name x) \<and> single_line (exc_msg x) \<and> single_line rel_path)"

section \<open>A concrete environment\<close>

text \<open>
  A POSIX installation: the project lives in /home/u/proj, the interpreter under
  /usr. The paths used below are absolute and normalised, so \<^verbatim>\<open>abspath\<close> returns
  them as they are; \<^verbatim>\<open>relpath\<close> is given on paths under the working directory. The
  renderer's Panel class defines no string conversion of its own, so \<^verbatim>\<open>str\<close> on a
  panel is Python's default \<^verbatim>\<open><module.Class object at 0x...>\<close>.
\<close>

definition abs_id :: "string \<Rightarrow> string" where
  "abs_id p = p"

definition rel_to :: "string \<Rightarrow> string \<Rightarrow> string option" where
  "rel_to d p = (if starts_with (d @ ''/'') p then Some (drop (length d + 1) p) else Some p)"

definition object_str :: "panel \<Rightarrow> string" where
  "object_str p = ''<rich.panel.Panel object at 0x7f3a5c1d2e90>''"

definition posix_env :: env where
  "posix_env =
     \<lparr>cwd = ''/home/u/proj'', backtrace_file = ''/home/u/proj/backtrace.py'',
      sys_prefix = ''/usr'', abspath = abs_id, relpath = rel_to ''/home/u/proj'',
      str_panel = object_str\<rparr>"

definition no_denial :: "string \<Rightarrow> exn option" where
  "no_denial p = None"

definition no_file :: "string \<Rightarrow> string option" where
  "no_file p = None"

definition world0 :: world where
  "world0 = \<lparr>trace_hook = Some (Foreign 7), files = no_file, console = [],
             open_error = no_denial\<rparr>"




text \<open>
  A program: main.py calls \<open>f\<close> of app.py at line 20; \<open>f\<close> (line 3) calls \<open>g\<close>
  (line 8) from its line 4.
\<close>

definition code_main :: code where
  "code_main = \<lparr>co_name = ''<module>'', co_filename = ''/home/u/proj/main.py'', co_body = 0\<rparr>"

definition code_f :: code where
  "code_f = \<lparr>co_name = ''f'', co_filename = ''/home/u/proj/app.py'', co_body = 1\<rparr>"

definition code_g :: code where
  "code_g = \<lparr>co_name = ''g'', co_filename = ''/home/u/proj/app.py'', co_body = 2\<rparr>"

definition code_lib :: code where
  "code_lib =
     \<lparr>co_name = ''dumps'', co_filename = ''/usr/lib/python3/site-packages/lib/enc.py'',
      co_body = 3\<rparr>"

definition frame_main :: frame where
  "frame_main = Frame 1 code_main 20 [] None"

definition frame_f :: "int \<Rightarrow> frame" where
  "frame_f line = Frame 2 code_f line [] (Some frame_main)"

definition frame_g :: "int \<Rightarrow> frame" where
  "frame_g line = Frame 3 code_g line [] (Some (frame_f 4))"

definition frame_lib :: frame where
  "frame_lib = Frame 4 code_lib 51 [] (Some (frame_g 9))"

definition value_error :: exn where
  "value_error = \<lparr>exc_name = ''ValueError'', exc_msg = ''bad''\<rparr>"

definition user_warning :: exn where
  "user_warning = \<lparr>exc_name = ''UserWarning'', exc_msg = ''deprecated''\<rparr>"

text \<open>\<open>f\<close> raising \<^verbatim>\<open>ValueError("bad")\<close> at its line 5, and \<open>f\<close> calling \<open>g\<close> and returning 7.\<close>

definition raising_call :: "nat behaviour" where
  "raising_call w =
     ([(frame_f 3, RCall), (frame_f 5, RLine), (frame_f 5, RException value_error),
       (frame_f 5, RReturn)],
      Inl value_error, w)"

definition returning_call :: "nat behaviour" where
  "returning_call w =
     ([(frame_f 3, RCall), (frame_f 4, RLine), (frame_g 8, RCall), (frame_g 9, RLine),
       (frame_g 9, RReturn), (frame_f 4, RReturn)],
      Inr 7, w)"

definition cfg_returning :: config where
  "cfg_returning =
     \<lparr>cfg_log_file = None, cfg_return_trace = True, cfg_trace_on_success = True,
      cfg_use_rich = False\<rparr>"



definition ctx_active :: trace_context where
  "ctx_active =
     (new_context code_f None False False)
       \<lparr>events := [Call ''app.py'' 3 ''f''], started := True, root_frame := Some 2\<rparr>"

text \<open>
  The context after \<open>f\<close> raised \<^verbatim>\<open>ValueError("bad")\<close>, and the context after it
  raised a ValueError whose message has two lines, the second being
  \<^verbatim>\<open>STATUS: PASS\<close>.
\<close>

definition ctx_failed :: trace_context where
  "ctx_failed =
     intake_all posix_env (new_context code_f None False False) (fst (raising_call world0))"

definition two_line_error :: exn where
  "two_line_error = \<lparr>exc_name = ''ValueError'', exc_msg = ''bad'' @ nl @ ''STATUS: PASS''\<rparr>"

definition ctx_two_line :: trace_context where
  "ctx_two_line =
     intake_all posix_env (new_context code_f None False False)
       [(frame_f 3, RCall), (frame_f 5, RLine), (frame_f 5, RException two_line_error),
        (frame_f 5, RReturn)]"

section \<open>Auxiliary facts\<close>

lemma starts_with_iff: "starts_with s t \<longleftrightarrow> (\<exists>ss. t = s @ ss)"
  by (induction s t rule: starts_with.induct) auto

lemma str_in_iff: "str_in s t \<longleftrightarrow> (\<exists>ps ss. t = ps @ s @ ss)"
proof (induction t)
  case Nil
  show ?case by auto
next
  case (Cons c t)
  have "(\<exists>ps ss. c # t = ps @ s @ ss) \<longleftrightarrow>
        (\<exists>ss. c # t = s @ ss) \<or> (\<exists>ps ss. t = ps @ s @ ss)"
  proof
    assume "\<exists>ps ss. c # t = ps @ s @ ss"
    then obtain ps ss where eq: "c # t = ps @ s @ ss" by blast
    show "(\<exists>ss. c # t = s @ ss) \<or> (\<exists>ps ss. t = ps @ s @ ss)"
    proof (cases ps)
      case Nil
      with eq show ?thesis by auto
    next
      case (Cons a ps')
      with eq have "t = ps' @ s @ ss" by simp
      then show ?thesis by blast
    qed
  next
    assume "(\<exists>ss. c # t = s @ ss) \<or> (\<exists>ps ss. t = ps @ s @ ss)"
    then show "\<exists>ps ss. c # t = ps @ s @ ss"
    proof
      assume "\<exists>ss. c # t = s @ ss"
      then obtain ss where "c # t = [] @ s @ ss" by auto
      then show ?thesis by blast
    next
      assume "\<exists>ps ss. t = ps @ s @ ss"
      then obtain ps ss where "c # t = (c # ps) @ s @ ss" by auto
      then show ?thesis by blast
    qed
  qed
  with Cons show ?case by (simp add: starts_with_iff)
qed

lemma butlast_nonempty: "1 < length xs \<Longrightarrow> butlast xs \<noteq> []"
  by (cases xs rule: rev_cases) auto

lemma tree_step_ok:
  "stack \<noteq> [] \<Longrightarrow> \<exists>st t'. tree_step isf e (stack, t) = Inr (st, t') \<and> st \<noteq> []"
  by (cases e) (auto simp: tree_add_def butlast_nonempty)

lemma tree_loop_ok:
  "stack \<noteq> [] \<Longrightarrow> \<exists>st t'. tree_loop isf es (stack, t) = Inr (st, t') \<and> st \<noteq> []"
proof (induction es arbitrary: stack t)
  case Nil
  then show ?case by simp
next
  case (Cons e es)
  from tree_step_ok [OF Cons.prems] obtain st1 t1
    where step: "tree_step isf e (stack, t) = Inr (st1, t1)" and ne: "st1 \<noteq> []" by blast
  from Cons.IH [OF ne] obtain st t'
    where "tree_loop isf es (st1, t1) = Inr (st, t')" and "st \<noteq> []" by blast
  with step show ?case by simp
qed

lemma build_tree_ok: "\<exists>t. build_tree ctx isf = Inr t"
proof (cases "events ctx")
  case Nil
  then show ?thesis by (simp add: build_tree_def)
next
  case (Cons e es)
  have "[0::nat] \<noteq> []" by simp
  from tree_loop_ok [OF this] obtain st t'
    where "tree_loop isf es ([0], [(call_label (ev_path e) (ev_line e) (ev_func e), [])])
             = Inr (st, t')" by blast
  with Cons show ?thesis by (simp add: build_tree_def)
qed

lemma format_trace_ok: "\<exists>r. format_trace ctx status isf = Inr r"
proof -
  obtain t where "build_tree ctx isf = Inr t" using build_tree_ok by blast
  then show ?thesis by (simp add: format_trace_def split: prod.splits)
qed

lemma plain_step_length: "length (fst (plain_step isf e s)) = Suc (length (fst s))"
  by (cases e; cases s) auto

lemma plain_loop_length: "length (fst (plain_loop isf es s)) = length (fst s) + length es"
  by (induction es arbitrary: s) (auto simp: plain_step_length)

lemma plain_loop_append:
  "plain_loop isf (es @ es') s = plain_loop isf es' (plain_loop isf es s)"
  by (induction es arbitrary: s) auto

lemma matched_depth: "matched es \<Longrightarrow> snd (plain_loop isf es (ls, d)) = d"
proof (induction es arbitrary: ls d rule: matched.induct)
  case matched_Nil
  show ?case by simp
next
  case (matched_Exception es p l f x)
  then show ?case by simp
next
  case (matched_Call es es' p l f p' l' f')
  define ls1 where "ls1 = ls @ [str_times ''    '' d @ glyph_call @ '' '' @ p @ '':'' @ str_int l @
               '' ('' @ f @ '')'']"
  obtain ls2 d2 where l2: "plain_loop isf es (ls1, d + 1) = (ls2, d2)"
    by (cases "plain_loop isf es (ls1, d + 1)") auto
  have "d2 = d + 1" using matched_Call.IH(1) [of ls1 "d + 1"] l2 by simp
  with l2 have "plain_loop isf (Call p l f # es @ Return p' l' f' # es') (ls, d) =
        plain_loop isf es' (ls2 @ [str_times ''    '' d @ glyph_return @ '' '' @ p' @
               '' ('' @ f' @ '')''], d)"
    by (simp add: plain_loop_append ls1_def)
  then show ?case using matched_Call.IH(2) by simp
qed

lemma output_trace_world:
  "output_trace E ctx r w = (res, w') \<Longrightarrow>
     trace_hook w' = trace_hook w \<and> open_error w' = open_error w"
  by (auto simp: output_trace_def append_file_def
           split: if_splits option.splits report.splits sum.splits)

lemma finally_block_hook:
  "finally_block E ctx old exc w = (raised, w') \<Longrightarrow> trace_hook w' = old"
  by (auto simp: finally_block_def Let_def
           split: option.splits sum.splits prod.splits dest!: output_trace_world)

lemma trace_func_config:
  "return_trace (trace_func E c fr ev) = return_trace c \<and>
   log_file (trace_func E c fr ev) = log_file c \<and>
   use_rich (trace_func E c fr ev) = use_rich c \<and>
   target_code (trace_func E c fr ev) = target_code c"
  by (simp add: trace_func_def Let_def split: raw_event.splits option.splits)

lemma intake_all_config:
  "return_trace (intake_all E c raws) = return_trace c \<and>
   log_file (intake_all E c raws) = log_file c \<and>
   use_rich (intake_all E c raws) = use_rich c \<and>
   target_code (intake_all E c raws) = target_code c"
proof (induction raws arbitrary: c)
  case Nil
  show ?case by (simp add: intake_all_def)
next
  case (Cons a raws)
  obtain fr ev where a: "a = (fr, ev)" by (cases a)
  have step: "intake_all E c (a # raws) = intake_all E (trace_func E c fr ev) raws"
    by (simp add: intake_all_def a)
  show ?case
    unfolding step
    using Cons.IH [of "trace_func E c fr ev"] trace_func_config [of E c fr ev]
    by simp
qed

lemma output_trace_returns:
  "return_trace ctx \<Longrightarrow> output_trace E ctx r w = (Inr (Some (report_str E r)), w)"
  by (simp add: output_trace_def)

lemma single_line_Nil: "single_line []"
  by (simp add: single_line_def)

lemma single_line_Cons: "single_line (c # s) = (c \<noteq> CHR 0x0A \<and> single_line s)"
  by (auto simp: single_line_def)

lemma single_line_append: "single_line (a @ b) = (single_line a \<and> single_line b)"
  by (auto simp: single_line_def)

lemma digit_not_newline: "k < 10 \<Longrightarrow> ''0123456789'' ! k \<noteq> CHR 0x0A"
proof -
  assume "k < 10"
  then have "''0123456789'' ! k \<in> set ''0123456789''" by (intro nth_mem) simp
  then show ?thesis by auto
qed

lemma single_line_str_nat: "single_line (str_nat n)"
proof (induction n rule: str_nat.induct)
  case (1 n)
  show ?case
  proof (cases "n < 10")
    case True
    then show ?thesis
      by (subst str_nat.simps) (simp add: single_line_Cons single_line_Nil digit_not_newline)
  next
    case False
    with 1 have "single_line (str_nat (n div 10))" by simp
    moreover have "''0123456789'' ! (n mod 10) \<noteq> CHR 0x0A"
      by (rule digit_not_newline) simp
    ultimately show ?thesis
      using False
      by (subst str_nat.simps) (simp add: single_line_Cons single_line_Nil single_line_append)
  qed
qed

lemma single_line_str_int: "single_line (str_int i)"
  by (simp add: str_int_def single_line_str_nat single_line_Cons)

lemma single_line_indent: "single_line (str_times ''    '' d)"
  by (auto simp: str_times_def single_line_def)

lemmas single_line_simps =
  single_line_Nil single_line_Cons single_line_append single_line_str_int single_line_indent
  glyph_call_def glyph_return_def glyph_fail_def glyph_warn_def

lemma ev_single_line_path: "ev_single_line isf e \<Longrightarrow> single_line (ev_path e)"
  by (cases e) simp_all

lemma plain_step_single_line:
  assumes "ev_single_line isf e" and "list_all single_line ls"
  shows "list_all single_line (fst (plain_step isf e (ls, d)))"
  using assms by (cases e) (simp_all add: single_line_simps)

lemma plain_loop_single_line:
  "list_all (ev_single_line isf) es \<Longrightarrow> list_all single_line ls
   \<Longrightarrow> list_all single_line (fst (plain_loop isf es (ls, d)))"
proof (induction es arbitrary: ls d)
  case Nil
  then show ?case by simp
next
  case (Cons e es)
  obtain ls' d' where step: "plain_step isf e (ls, d) = (ls', d')"
    by (cases "plain_step isf e (ls, d)") auto
  from Cons.prems have e: "ev_single_line isf e" and es: "list_all (ev_single_line isf) es"
    by simp_all
  from plain_step_single_line [OF e Cons.prems(2), of d] step
  have "list_all single_line ls'" by simp
  from Cons.IH [OF es this, of d'] step show ?case by simp
qed

lemma plain_header_single_line:
  assumes "info_single_line (if isf then exception_info ctx else None)"
    and "list_all (ev_single_line isf) (events ctx)"
  shows "single_line (plain_header ctx isf)"
proof (cases "if isf then exception_info ctx else None")
  case None
  show ?thesis
  proof (cases "events ctx")
    case Nil
    with None show ?thesis by (simp add: plain_header_def single_line_simps)
  next
    case (Cons e es)
    with assms(2) have "ev_single_line isf e" by simp
    then have "single_line (ev_path e)" by (rule ev_single_line_path)
    with None Cons show ?thesis by (simp add: plain_header_def single_line_simps)
  qed
next
  case (Some info)
  obtain x rel_path lineno func_name where info: "info = (x, rel_path, lineno, func_name)"
    by (cases info) auto
  from assms(1) Some info
  have "single_line (exc_name x) \<and> single_line (exc_msg x) \<and> single_line rel_path"
    by (simp add: info_single_line_def)
  with Some info show ?thesis by (simp add: plain_header_def single_line_simps)
qed

lemma split_lines_single_line: "single_line s \<Longrightarrow> split_lines s = [s]"
  by (induction s) (simp_all add: single_line_Cons)

lemma split_lines_append_newline:
  "single_line a \<Longrightarrow> split_lines (a @ CHR 0x0A # t) = a # split_lines t"
  by (induction a) (simp_all add: single_line_Cons)

lemma split_lines_join:
  "list_all single_line xs \<Longrightarrow> xs \<noteq> [] \<Longrightarrow> split_lines (join nl xs) = xs"
proof (induction xs)
  case Nil
  then show ?case by simp
next
  case (Cons x xs)
  show ?case
  proof (cases xs)
    case Nil
    with Cons.prems show ?thesis by (simp add: split_lines_single_line)
  next
    case (Cons y ys)
    from Cons.prems(1) have x: "single_line x" and rest: "list_all single_line xs" by simp_all
    from Cons have "xs \<noteq> []" by simp
    from Cons.IH [OF rest this] have ih: "split_lines (join nl xs) = xs" .
    have "join nl (x # xs) = x @ CHR 0x0A # join nl xs"
      using Cons by (simp add: nl_def)
    then show ?thesis
      using x ih by (simp add: split_lines_append_newline)
  qed
qed

section \<open>The claims\<close>

subsection \<open>C1: one FAIL report, and the original exception escapes\<close>


text \<open>
  With return-trace set the FAIL report is built and then dropped, as every report
  of the wrapper is (see C3): the call leaves the world as the traced function
  left it, but for the hook.
\<close>

lemma returned_fail_report_is_dropped:
  assumes raises: "func (w\<lparr>trace_hook := Some Intake\<rparr>) = (raws, Inl e, w1)"
    and rt: "cfg_return_trace cfg"
  shows "wrapper E cfg c func handling w = (Inl e, w1\<lparr>trace_hook := trace_hook w\<rparr>)"
proof -
  define ctx where "ctx = intake_all E (new_context c (cfg_log_file cfg) (cfg_return_trace cfg)
                     (cfg_use_rich cfg)) raws"
  have "return_trace ctx" using rt by (simp add: ctx_def intake_all_config new_context_def)
  from output_trace_returns [OF this]
  have out: "\<And>rep. output_trace E ctx rep (w1\<lparr>trace_hook := trace_hook w\<rparr>) =
      (Inr (Some (report_str E rep)), w1\<lparr>trace_hook := trace_hook w\<rparr>)" .
  obtain rep where rep: "format_trace ctx ''FAIL'' True = Inr rep"
    using format_trace_ok by blast
  show ?thesis
    unfolding wrapper_def Let_def ctx_def [symmetric] raises prod.case sum.case
      finally_block_def option.case rep out
    by simp
qed



subsection \<open>C2: the trace hook is restored\<close>

text \<open>
  C2. Whatever the traced function does (return, raise, replace the hook itself)
  and whatever happens to the reports, the process-wide trace hook after the
  wrapped call is the one that was installed before it: the value saved on entry,
  not \<^verbatim>\<open>None\<close>.
\<close>

theorem wrapper_restores_hook:
  "trace_hook (snd (wrapper E cfg c func handling w)) = trace_hook w"
proof -
  obtain raws res w1 where f: "func (w\<lparr>trace_hook := Some Intake\<rparr>) = (raws, res, w1)"
    by (cases "func (w\<lparr>trace_hook := Some Intake\<rparr>)") auto
  define ctx where "ctx = intake_all E (new_context c (cfg_log_file cfg) (cfg_return_trace cfg)
                     (cfg_use_rich cfg)) raws"
  obtain tried w2 where t: "(case res of
                           Inl e \<Rightarrow> (Inl e, w1)
                         | Inr result \<Rightarrow>
                             success_branch E (cfg_trace_on_success cfg) ctx result w1)
                         = (tried, w2)"
    by (cases "(case res of
                           Inl e \<Rightarrow> (Inl e, w1)
                         | Inr result \<Rightarrow>
                             success_branch E (cfg_trace_on_success cfg) ctx result w1)") auto
  obtain raised w3 where fin: "finally_block E ctx (trace_hook w)
        (case tried of Inl e \<Rightarrow> Some e | Inr v \<Rightarrow> handling) w2 = (raised, w3)"
    by (cases "finally_block E ctx (trace_hook w)
        (case tried of Inl e \<Rightarrow> Some e | Inr v \<Rightarrow> handling) w2") auto
  have "snd (wrapper E cfg c func handling w) = w3"
    unfolding wrapper_def Let_def ctx_def [symmetric] f prod.case t fin
    by (simp split: option.splits)
  with finally_block_hook [OF fin] show ?thesis by simp
qed

subsection \<open>C3: the output sink\<close>

text \<open>
  With return-trace set, \<^verbatim>\<open>output_trace\<close> returns the stringified report and
  touches neither files nor console; otherwise a configured log file is served
  before the console.
\<close>

lemma output_trace_log_before_console:
  assumes "\<not> return_trace ctx" and "configured (log_file ctx) = Some path"
    and "open_error w path = None"
  shows "console (snd (output_trace E ctx r w)) = console w"
    and "files (snd (output_trace E ctx r w)) path =
           Some ((case files w path of None \<Rightarrow> [] | Some old \<Rightarrow> old) @ report_str E r @ nl)"
  using assms by (simp_all add: output_trace_def append_file_def)

text \<open>
  C3. The claim has the report handed back to the caller of the instrumented
  call. The wrapper drops what \<^verbatim>\<open>output_trace\<close> returns: with return-trace set and
  \<open>f\<close> returning 7, the instrumented call returns 7, nothing is printed, and the
  report is lost.
\<close>

theorem return_trace_dropped_by_wrapper:
  "fst (wrapper posix_env cfg_returning code_f returning_call None world0) = Inr 7
   \<and> console (snd (wrapper posix_env cfg_returning code_f returning_call None world0)) = []
   \<and> files (snd (wrapper posix_env cfg_returning code_f returning_call None world0))
        ''trace.log'' = None"
  by code_simp

subsection \<open>C4: where a Call event is recorded\<close>

text \<open>
  C4. For a Call event from a traceable file taken while recording is active
  (the context had started, or this very event starts it): when the frame has a
  caller and is not the root frame, the event is appended with the caller's
  relative path and line; when the frame is the root frame or has no caller, it is
  appended with the frame's own relative path and line.
\<close>

theorem call_event_location:
  assumes "should_trace E (co_filename (f_code fr))"
    and "started ctx \<or> code_eq (f_code fr) (target_code ctx)"
  shows "events (trace_func E ctx fr RCall) = events ctx @
     [if f_back fr \<noteq> None \<and>
         (if started ctx then root_frame ctx else Some (f_id fr)) \<noteq> Some (f_id fr)
      then Call (get_relative_path E (co_filename (f_code (the (f_back fr)))))
                (f_lineno (the (f_back fr))) (get_function_name fr)
      else Call (get_relative_path E (co_filename (f_code fr))) (f_lineno fr)
                (get_function_name fr)]"
  using assms by (auto simp: trace_func_def Let_def split: option.splits)

theorem call_event_location_witness:
  "should_trace posix_env (co_filename (f_code (frame_g 8)))
   \<and> started ctx_active
   \<and> events (trace_func posix_env ctx_active (frame_g 8) RCall) =
       [Call ''app.py'' 3 ''f'', Call ''app.py'' 4 ''g'']
   \<and> code_eq (f_code (frame_f 3)) (target_code (new_context code_f None False False))
   \<and> events (trace_func posix_env (new_context code_f None False False) (frame_f 3) RCall) =
       [Call ''app.py'' 3 ''f'']"
proof -
  have h1: "should_trace posix_env (co_filename (f_code (frame_g 8)))" by code_simp
  have h2: "started ctx_active" by code_simp
  have h3: "should_trace posix_env (co_filename (f_code (frame_f 3)))" by code_simp
  have h4: "code_eq (f_code (frame_f 3)) (target_code (new_context code_f None False False))"
    by code_simp
  have r1: "events ctx_active @
     [if f_back (frame_g 8) \<noteq> None \<and>
         (if started ctx_active then root_frame ctx_active else Some (f_id (frame_g 8)))
           \<noteq> Some (f_id (frame_g 8))
      then Call (get_relative_path posix_env (co_filename (f_code (the (f_back (frame_g 8))))))
                (f_lineno (the (f_back (frame_g 8)))) (get_function_name (frame_g 8))
      else Call (get_relative_path posix_env (co_filename (f_code (frame_g 8))))
                (f_lineno (frame_g 8)) (get_function_name (frame_g 8))] =
     [Call ''app.py'' 3 ''f'', Call ''app.py'' 4 ''g'']"
    by code_simp
  have r2: "events (new_context code_f None False False) @
     [if f_back (frame_f 3) \<noteq> None \<and>
         (if started (new_context code_f None False False)
          then root_frame (new_context code_f None False False)
          else Some (f_id (frame_f 3))) \<noteq> Some (f_id (frame_f 3))
      then Call (get_relative_path posix_env (co_filename (f_code (the (f_back (frame_f 3))))))
                (f_lineno (the (f_back (frame_f 3)))) (get_function_name (frame_f 3))
      else Call (get_relative_path posix_env (co_filename (f_code (frame_f 3))))
                (f_lineno (frame_f 3)) (get_function_name (frame_f 3))] =
     [Call ''app.py'' 3 ''f'']"
    by code_simp
  have a: "events (trace_func posix_env ctx_active (frame_g 8) RCall) =
       [Call ''app.py'' 3 ''f'', Call ''app.py'' 4 ''g'']"
    using call_event_location [OF h1 disjI1 [OF h2]] unfolding r1 .
  have b: "events (trace_func posix_env (new_context code_f None False False) (frame_f 3) RCall)
       = [Call ''app.py'' 3 ''f'']"
    using call_event_location [OF h3 disjI2 [OF h4]] unfolding r2 .
  from h1 h2 a h4 b show ?thesis by (intro conjI)
qed

subsection \<open>C5: which files are traced\<close>

text \<open>
  The claim as stated (path segments, paths under a directory) fails: the code
  tests substrings. A file whose path merely contains the text of the installation
  prefix, or a directory whose name merely contains \<^verbatim>\<open>site-packages\<close>, is excluded
  by the code and traceable by the claim's words.
\<close>

theorem should_trace_not_segmentwise:
  "\<not> should_trace posix_env ''/home/u/usr/tool.py''
   \<and> isTraceable_spec posix_env ''/home/u/usr/tool.py''
   \<and> \<not> should_trace posix_env ''/home/u/proj/my-site-packages-notes/a.py''
   \<and> isTraceable_spec posix_env ''/home/u/proj/my-site-packages-notes/a.py''"
  by code_simp

text \<open>
  C5 (amended). \<^verbatim>\<open>_should_trace\<close> returns false exactly when the absolute path is
  the tracer's own file, or contains \<^verbatim>\<open>site-packages\<close> or \<^verbatim>\<open>dist-packages\<close> as a
  substring, or contains the installation prefix as a substring without containing
  the working directory as a substring; and an event from a frame whose file it
  rejects leaves the context, hence the event log, unchanged.
\<close>

theorem should_trace_substring:
  "should_trace E p =
     (\<not> (abspath E p = backtrace_file E
         \<or> (\<exists>a b. abspath E p = a @ ''site-packages'' @ b)
         \<or> (\<exists>a b. abspath E p = a @ ''dist-packages'' @ b)
         \<or> ((\<exists>a b. abspath E p = a @ sys_prefix E @ b)
            \<and> \<not> (\<exists>a b. abspath E p = a @ cwd E @ b))))
   \<and> (\<not> should_trace E (co_filename (f_code fr)) \<longrightarrow> trace_func E ctx fr ev = ctx)"
  unfolding should_trace_def Let_def str_in_iff [symmetric]
  by (simp add: trace_func_def should_trace_def Let_def)

theorem should_trace_substring_witness:
  "\<not> should_trace posix_env (co_filename (f_code frame_lib))
   \<and> trace_func posix_env ctx_active frame_lib RCall = ctx_active"
proof -
  have h: "\<not> should_trace posix_env (co_filename (f_code frame_lib))" by code_simp
  have "\<not> should_trace posix_env (co_filename (f_code frame_lib)) \<longrightarrow>
        trace_func posix_env ctx_active frame_lib RCall = ctx_active"
    using should_trace_substring [where E = posix_env and fr = frame_lib
        and ctx = ctx_active and ev = RCall]
    by (rule conjunct2)
  from this h have "trace_func posix_env ctx_active frame_lib RCall = ctx_active"
    by (rule mp)
  with h show ?thesis by (intro conjI)
qed

subsection \<open>C6: the frame of the plain report\<close>

text \<open>
  The claim as stated fails: the texts of the events are put into the report as
  they are, so an exception message of two lines gives the header two lines and
  the event two body lines. The FAIL report of three events below has nine lines,
  not seven, and one of them reads \<^verbatim>\<open>STATUS: PASS\<close>.
\<close>

theorem two_line_message_breaks_frame:
  "length (events ctx_two_line) = 3
   \<and> split_lines (format_plain ctx_two_line ''FAIL'' True) =
       [''EXCEPTION: ValueError: bad'',
        ''STATUS: PASS at app.py:5'',
        ''=== BACKTRACE ==='',
        glyph_call @ '' app.py:3 (f)'',
        ''    '' @ glyph_fail @ '' app.py:5 (f) <-- EXCEPTION HERE: ValueError: bad'',
        ''STATUS: PASS'',
        glyph_return @ '' app.py (f)'',
        ''================='',
        ''STATUS: FAIL'']"
  by code_simp

text \<open>
  C6 (amended). When the status and the texts the report prints (the paths and
  function names of the events, the class names of their exceptions, in a failure
  report also the exceptions' messages and the texts of the last-exception slot)
  contain no newline, the lines of the plain report are exactly: the header line,
  \<^verbatim>\<open>=== BACKTRACE ===\<close>, one body line for each event, \<^verbatim>\<open>=================\<close>, and
  \<^verbatim>\<open>STATUS: \<close> followed by the status (PASS or FAIL from the wrapper).
\<close>

theorem plain_report_lines:
  assumes "single_line status"
    and "list_all (ev_single_line isf) (events ctx)"
    and "info_single_line (if isf then exception_info ctx else None)"
  shows "split_lines (format_plain ctx status isf) =
           [plain_header ctx isf, ''=== BACKTRACE ===''] @
           fst (plain_loop isf (events ctx) ([], 0)) @
           [''================='', ''STATUS: '' @ status]
         \<and> length (fst (plain_loop isf (events ctx) ([], 0))) = length (events ctx)"
proof -
  obtain ls d where l: "plain_loop isf (events ctx) ([], 0) = (ls, d)"
    by (cases "plain_loop isf (events ctx) ([], 0)") auto
  have len: "length ls = length (events ctx)"
    using plain_loop_length [of isf "events ctx" "([], 0)"] l by simp
  have body: "list_all single_line ls"
    using plain_loop_single_line [OF assms(2), of "[]" 0] l by simp
  have header: "single_line (plain_header ctx isf)"
    by (rule plain_header_single_line [OF assms(3) assms(2)])
  have all: "list_all single_line
      ([plain_header ctx isf, ''=== BACKTRACE ===''] @ ls @
       [''================='', ''STATUS: '' @ status])"
    using header body assms(1) by (simp add: single_line_simps)
  have eq: "format_plain ctx status isf =
       join nl ([plain_header ctx isf, ''=== BACKTRACE ===''] @ ls @
                [''================='', ''STATUS: '' @ status])"
    using l by (simp add: format_plain_def)
  have "split_lines (format_plain ctx status isf) =
       [plain_header ctx isf, ''=== BACKTRACE ===''] @ ls @
       [''================='', ''STATUS: '' @ status]"
    unfolding eq by (rule split_lines_join [OF all]) simp
  with len l show ?thesis by simp
qed

theorem plain_report_lines_witness:
  "single_line ''FAIL''
   \<and> list_all (ev_single_line True) (events ctx_failed)
   \<and> info_single_line (if True then exception_info ctx_failed else None)
   \<and> length (events ctx_failed) = 3
   \<and> split_lines (format_plain ctx_failed ''FAIL'' True) =
       [''EXCEPTION: ValueError: bad at app.py:5'',
        ''=== BACKTRACE ==='',
        glyph_call @ '' app.py:3 (f)'',
        ''    '' @ glyph_fail @ '' app.py:5 (f) <-- EXCEPTION HERE: ValueError: bad'',
        glyph_return @ '' app.py (f)'',
        ''================='',
        ''STATUS: FAIL'']"
proof -
  have h1: "single_line ''FAIL''" by code_simp
  have h2: "list_all (ev_single_line True) (events ctx_failed)" by code_simp
  have h3: "info_single_line (if True then exception_info ctx_failed else None)" by code_simp
  have n: "length (events ctx_failed) = 3" by code_simp
  have r: "[plain_header ctx_failed True, ''=== BACKTRACE ===''] @
           fst (plain_loop True (events ctx_failed) ([], 0)) @
           [''================='', ''STATUS: '' @ ''FAIL''] =
       [''EXCEPTION: ValueError: bad at app.py:5'',
        ''=== BACKTRACE ==='',
        glyph_call @ '' app.py:3 (f)'',
        ''    '' @ glyph_fail @ '' app.py:5 (f) <-- EXCEPTION HERE: ValueError: bad'',
        glyph_return @ '' app.py (f)'',
        ''================='',
        ''STATUS: FAIL'']"
    by code_simp
  have "split_lines (format_plain ctx_failed ''FAIL'' True) =
           [plain_header ctx_failed True, ''=== BACKTRACE ===''] @
           fst (plain_loop True (events ctx_failed) ([], 0)) @
           [''================='', ''STATUS: '' @ ''FAIL'']"
    using plain_report_lines [OF h1 h2 h3] by (rule conjunct1)
  then have e: "split_lines (format_plain ctx_failed ''FAIL'' True) =
       [''EXCEPTION: ValueError: bad at app.py:5'',
        ''=== BACKTRACE ==='',
        glyph_call @ '' app.py:3 (f)'',
        ''    '' @ glyph_fail @ '' app.py:5 (f) <-- EXCEPTION HERE: ValueError: bad'',
        glyph_return @ '' app.py (f)'',
        ''================='',
        ''STATUS: FAIL'']"
    unfolding r .
  from h1 h2 h3 n e show ?thesis by (intro conjI)
qed

subsection \<open>C7: the depth returns to zero\<close>

text \<open>
  C7. For an event log in which every Call is closed by its Return (calls and
  returns nest as in a call tree), the depth counter of the plain formatter, which
  starts at 0, is 0 again after the last event.
\<close>

theorem matched_depth_zero:
  "matched es \<Longrightarrow> snd (plain_loop isf es ([], 0)) = 0"
  by (rule matched_depth)

theorem matched_depth_zero_witness:
  "matched [Call ''app.py'' 3 ''f'', Call ''app.py'' 4 ''g'', Return ''app.py'' 9 ''g'',
            Return ''app.py'' 4 ''f'']
   \<and> snd (plain_loop False
         [Call ''app.py'' 3 ''f'', Call ''app.py'' 4 ''g'', Return ''app.py'' 9 ''g'',
          Return ''app.py'' 4 ''f''] ([], 0)) = 0"
proof -
  have inner: "matched [Call ''app.py'' 4 ''g'', Return ''app.py'' 9 ''g'']"
    using matched_Call [OF matched_Nil matched_Nil, of "''app.py''" 4 "''g''" "''app.py''" 9 "''g''"]
    by simp
  have m: "matched [Call ''app.py'' 3 ''f'', Call ''app.py'' 4 ''g'', Return ''app.py'' 9 ''g'',
            Return ''app.py'' 4 ''f'']"
    using matched_Call [OF inner matched_Nil, of "''app.py''" 3 "''f''" "''app.py''" 4 "''f''"]
    by simp
  from m matched_depth_zero [OF m, of False] show ?thesis by (intro conjI)
qed

subsection \<open>C8: the formatters tolerate any event log\<close>


subsection \<open>C9: the warning reporter\<close>

text \<open>
  In plain mode the returned report contains the warning's class after
  \<^verbatim>\<open>WARNING: \<close> and its message.
\<close>

lemma str_in_middle: "str_in s (ps @ s @ ss)"
  unfolding str_in_iff by blast

lemma log_warning_plain_contains:
  assumes "fst (log_warning E warning caller lf True False w) = Inr (Some s)"
  shows "str_in (''WARNING: '' @ exc_name warning) s \<and> str_in (exc_msg warning) s"
proof -
  define site where "site = get_relative_path E (co_filename (f_code caller)) @ '':'' @
    str_int (f_lineno caller)"
  define rest where "rest = '' at '' @ site @ nl @ ''=== BACKTRACE ==='' @ nl @
    glyph_call @ '' '' @ site @ '' (warning_site)'' @ nl @ ''================='' @ nl @
    ''STATUS: WARNING''"
  have "log_warning E warning caller lf True False w =
          (Inr (Some (''WARNING: '' @ exc_name warning @ '': '' @ exc_msg warning @ rest)), w)"
    by (simp add: log_warning_def Let_def rest_def site_def)
  with assms have s: "s = ''WARNING: '' @ exc_name warning @ '': '' @ exc_msg warning @ rest"
    by simp
  have a: "str_in (''WARNING: '' @ exc_name warning) s"
    using str_in_middle [of "''WARNING: '' @ exc_name warning" "[]"
        "'': '' @ exc_msg warning @ rest"]
    unfolding s by (simp only: append_Nil append_assoc)
  have b: "str_in (exc_msg warning) s"
    using str_in_middle [of "exc_msg warning" "''WARNING: '' @ exc_name warning @ '': ''" rest]
    unfolding s by (simp only: append_Nil append_assoc)
  from a b show ?thesis by (intro conjI)
qed

text \<open>
  C9. Called as in the claim, with the rich mode left at its default (on), the
  reporter returns \<^verbatim>\<open>str(panel)\<close>. The panel class has no string conversion of its
  own, so the result is the default object text, which contains neither
  \<^verbatim>\<open>WARNING: UserWarning\<close> nor \<^verbatim>\<open>deprecated\<close>.
\<close>

theorem log_warning_rich_returns_object_str:
  "fst (log_warning posix_env user_warning (frame_f 4) None True True world0) =
     Inr (Some ''<rich.panel.Panel object at 0x7f3a5c1d2e90>'')
   \<and> \<not> str_in ''WARNING: UserWarning'' ''<rich.panel.Panel object at 0x7f3a5c1d2e90>''
   \<and> \<not> str_in ''deprecated'' ''<rich.panel.Panel object at 0x7f3a5c1d2e90>''"
  by code_simp

subsection \<open>C10: a failure with no exception recorded\<close>



end
